theory Spec2Isabelle
  imports Main "HOL-Library.AList"
begin

section \<open>Python values, exceptions and dictionaries\<close>

text \<open>
  The exceptions that the modelled functions can raise. A function that may raise returns
  the state it has reached together with \<open>Some e\<close>; \<open>None\<close> means that it returned.
\<close>

datatype error =
    KeyError | AttributeError | TypeError | ValueError | RuntimeError
  | JSONDecodeError | BinasciiError

text \<open>
  A link is a websocket object. The server distinguishes the connections it accepted
  (\<open>websocket_server.ServerConnection\<close>) from the ones it opened itself with
  \<open>websockets.connect\<close>; \<open>receive_client_update\<close> tests for the former with
  \<open>isinstance\<close>.
\<close>

datatype link = ServerConnection nat | ClientConnection nat

fun isinstance_ServerConnection :: "link \<Rightarrow> bool" where
  "isinstance_ServerConnection (ServerConnection _) = True"
| "isinstance_ServerConnection (ClientConnection _) = False"

text \<open>
  What \<open>json.loads\<close> produces: the values handled by the server are whatever a peer
  put on the wire, so every field read from a frame is a JSON value and not a string.
  Numbers are integers (the counter); floats do not occur in the protocol.
\<close>

datatype json =
    JNull | JBool bool | JInt int | JStr string
  | JArr "json list" | JObj "(string \<times> json) list"

text \<open>
  A Python \<open>dict\<close> keeps its keys in insertion order: it is an association list.
  \<open>d[k] = v\<close> is \<open>AList.update k v d\<close> (an existing key keeps its place, a new one goes
  to the end), \<open>d.pop(k)\<close> is \<open>AList.delete k d\<close> and \<open>k in d\<close> is \<open>dict_in k d\<close>.
\<close>

type_synonym ('k, 'v) dict = "('k \<times> 'v) list"

definition dict_in :: "'k \<Rightarrow> ('k, 'v) dict \<Rightarrow> bool" where
  "dict_in k d = (map_of d k \<noteq> None)"

definition dict_item :: "('k, 'v) dict \<Rightarrow> 'k \<Rightarrow> error + 'v" where
  \<comment> \<open>\<open>d[k]\<close>\<close>
  "dict_item d k = (case map_of d k of None \<Rightarrow> Inl KeyError | Some v \<Rightarrow> Inr v)"

definition dict_get :: "(string, json) dict \<Rightarrow> string \<Rightarrow> json" where
  \<comment> \<open>\<open>d.get(k, None)\<close>\<close>
  "dict_get d k = (case map_of d k of None \<Rightarrow> JNull | Some v \<Rightarrow> v)"

definition py_get :: "json \<Rightarrow> string \<Rightarrow> error + json" where
  \<comment> \<open>\<open>x.get(k, None)\<close> on a decoded value: only a dict has the method\<close>
  "py_get x k = (case x of JObj d \<Rightarrow> Inr (dict_get d k) | _ \<Rightarrow> Inl AttributeError)"

definition py_item :: "json \<Rightarrow> string \<Rightarrow> error + json" where
  \<comment> \<open>\<open>x[k]\<close> with a string key on a decoded value\<close>
  "py_item x k = (case x of JObj d \<Rightarrow> dict_item d k | _ \<Rightarrow> Inl TypeError)"

fun hashable :: "json \<Rightarrow> bool" where
  "hashable (JArr _) = False"
| "hashable (JObj _) = False"
| "hashable _ = True"

text \<open>
  Python's \<open>==\<close> on decoded values: \<open>True\<close> equals \<open>1\<close> and \<open>False\<close> equals \<open>0\<close>, lists
  are compared element by element, and dicts by their keys and the values under each
  key, whatever the order (the keys of a decoded object are distinct). Everything else
  is equal to itself only.
\<close>

function (sequential) py_eq :: "json \<Rightarrow> json \<Rightarrow> bool" where
  "py_eq (JBool p) (JInt i) = (i = (if p then 1 else 0))"
| "py_eq (JInt i) (JBool p) = (i = (if p then 1 else 0))"
| "py_eq (JArr xs) (JArr ys) =
     (length xs = length ys \<and> (\<forall>(x, y) \<in> set (zip xs ys). py_eq x y))"
| "py_eq (JObj a) (JObj b) =
     (set (map fst a) = set (map fst b) \<and>
      (\<forall>(k, x) \<in> set a. case map_of b k of None \<Rightarrow> False | Some y \<Rightarrow> py_eq x y))"
| "py_eq x y = (x = y)"
  by pat_completeness auto

lemma size_list_member: "x \<in> set xs \<Longrightarrow> f x < Suc (size_list f xs)"
  by (induction xs) auto

termination py_eq
proof (relation "measure (\<lambda>(x, y). size x)")
  show "wf (measure (\<lambda>(x, y). size x))" by simp
next
  fix xs ys :: "json list" and z x y
  assume "z \<in> set (zip xs ys)" and "(x, y) = z"
  then have "x \<in> set xs" by (auto dest: set_zip_leftD)
  then show "((x, y), JArr xs, JArr ys) \<in> measure (\<lambda>(x, y). size x)"
    using size_list_member [of x xs size] by simp
next
  fix a b :: "(string \<times> json) list" and z k x y
  assume "z \<in> set a" and "(k, x) = z" and "map_of b k = Some y"
  then have "(k, x) \<in> set a" by simp
  then show "((x, y), JObj a, JObj b) \<in> measure (\<lambda>(x, y). size x)"
    using size_list_member [of "(k, x)" a "size_prod (\<lambda>x. 0) size"] by simp
qed

text \<open>
  \<open>d[k] = v\<close> on a dict whose keys are decoded values: a key that is equal to \<open>k\<close> keeps
  its place and its own key object and takes the new value; otherwise the pair goes to
  the end.
\<close>

fun py_update :: "json \<Rightarrow> 'v \<Rightarrow> (json, 'v) dict \<Rightarrow> (json, 'v) dict" where
  "py_update k v [] = [(k, v)]"
| "py_update k v (p # ps) =
     (if py_eq (fst p) k then (fst p, v) # ps else p # py_update k v ps)"

section \<open>Text, bytes and base64\<close>

text \<open>
  A Python \<open>str\<close> is represented by its UTF-8 encoding, so \<open>s.encode("utf-8")\<close> and
  \<open>b.decode()\<close> are the identity on the representation and \<open>bytes\<close> are lists of
  8-bit characters as well. A \<open>str\<close> with a lone surrogate has no UTF-8 encoding
  (\<open>encode\<close> raises on it) and is not represented.
\<close>

type_synonym bytes = string

text \<open>\<open>str(n)\<close> for an integer: decimal digits, with a minus sign below zero.\<close>

definition digit_char :: "nat \<Rightarrow> char" where
  "digit_char d = char_of (48 + d)"

fun digits :: "nat \<Rightarrow> string" where
  "digits n = (if n < 10 then [digit_char n] else digits (n div 10) @ [digit_char (n mod 10)])"

declare digits.simps [simp del]

definition str_int :: "int \<Rightarrow> string" where
  "str_int i = (if i < 0 then CHR ''-'' # digits (nat (- i)) else digits (nat i))"

text \<open>The number that a string of decimal digits denotes (used to read \<open>digits\<close> back).\<close>

definition digits_value :: "string \<Rightarrow> nat" where
  "digits_value xs = foldl (\<lambda>acc c. 10 * acc + (of_char c - 48)) 0 xs"

text \<open>
  \<open>base64.b64encode\<close>: three bytes become four characters of the standard alphabet, and
  a last group of one or two bytes is padded with \<open>=\<close>.
\<close>

definition b64_char :: "nat \<Rightarrow> char" where
  "b64_char n =
     (if n < 26 then char_of (65 + n)
      else if n < 52 then char_of (71 + n)
      else if n < 62 then char_of (n - 4)
      else if n = 62 then CHR ''+'' else CHR ''/'')"

definition b64_index :: "char \<Rightarrow> nat option" where
  "b64_index c =
     (let k = (of_char c :: nat) in
      if 65 \<le> k \<and> k \<le> 90 then Some (k - 65)
      else if 97 \<le> k \<and> k \<le> 122 then Some (k - 71)
      else if 48 \<le> k \<and> k \<le> 57 then Some (k + 4)
      else if k = 43 then Some 62
      else if k = 47 then Some 63
      else None)"

fun b64encode :: "bytes \<Rightarrow> string" where
  "b64encode [] = []"
| "b64encode [a] =
     (let x = (of_char a :: nat) in
      [b64_char (x div 4), b64_char (x mod 4 * 16), CHR ''='', CHR ''=''])"
| "b64encode [a, b] =
     (let x = (of_char a :: nat); y = (of_char b :: nat) in
      [b64_char (x div 4), b64_char (x mod 4 * 16 + y div 16), b64_char (y mod 16 * 4),
       CHR ''=''])"
| "b64encode (a # b # c # rest) =
     (let x = (of_char a :: nat); y = (of_char b :: nat); z = (of_char c :: nat) in
      [b64_char (x div 4), b64_char (x mod 4 * 16 + y div 16),
       b64_char (y mod 16 * 4 + z div 64), b64_char (z mod 64)] @ b64encode rest)"

text \<open>
  \<open>base64.b64decode(s)\<close> with its default \<open>validate=False\<close>, as \<open>binascii.a2b_base64\<close>
  scans the text: a character outside the alphabet is skipped, \<open>quad_pos\<close> counts the
  characters of the current group, \<open>leftchar\<close> holds the bits not yet written, and a
  completed run of padding ends the scan. Text left with an incomplete group raises
  \<open>binascii.Error\<close>; a \<open>str\<close> that is not ASCII raises \<open>ValueError\<close> before the scan.
\<close>

fun a2b_base64 :: "string \<Rightarrow> nat \<Rightarrow> nat \<Rightarrow> nat \<Rightarrow> bytes \<Rightarrow> error + bytes" where
  "a2b_base64 [] quad_pos leftchar pads out =
     (if quad_pos \<noteq> 0 then Inl BinasciiError else Inr out)"
| "a2b_base64 (c # cs) quad_pos leftchar pads out =
     (if c = CHR ''='' then
        (if quad_pos \<ge> 2 \<and> quad_pos + (pads + 1) \<ge> 4 then Inr out
         else a2b_base64 cs quad_pos leftchar (if quad_pos \<ge> 2 then pads + 1 else pads) out)
      else
        (case b64_index c of
           None \<Rightarrow> a2b_base64 cs quad_pos leftchar pads out
         | Some v \<Rightarrow>
             if quad_pos = 0 then a2b_base64 cs 1 v 0 out
             else if quad_pos = 1
               then a2b_base64 cs 2 (v mod 16) 0 (out @ [char_of (leftchar * 4 + v div 16)])
             else if quad_pos = 2
               then a2b_base64 cs 3 (v mod 4) 0 (out @ [char_of (leftchar * 16 + v div 4)])
             else a2b_base64 cs 0 0 0 (out @ [char_of (leftchar * 64 + v)])))"

definition b64decode :: "string \<Rightarrow> error + bytes" where
  "b64decode s =
     (if \<exists>c \<in> set s. (of_char c :: nat) \<ge> 128 then Inl ValueError
      else a2b_base64 s 0 0 0 [])"

section \<open>Signatures (utils/crypto.py)\<close>

text \<open>
  The RSA-PSS primitive of the \<open>cryptography\<close> library is a parameter:
  \<open>S sk m\<close> is what \<open>private_key.sign(m, PSS(MGF1(SHA256), MAX_LENGTH), SHA256)\<close> returns
  in one call (the salt is drawn inside the library), and \<open>V pk sg m\<close> holds when
  \<open>public_key.verify(sg, m, \<dots>)\<close> does not raise \<open>InvalidSignature\<close>.
\<close>

definition sign_message :: "('sk \<Rightarrow> bytes \<Rightarrow> bytes) \<Rightarrow> string \<Rightarrow> int \<Rightarrow> 'sk \<Rightarrow> string" where
  "sign_message S message counter private_key =
     (let message_bytes = message @ str_int counter
      in b64encode (S private_key message_bytes))"

definition verify_signature ::
  "('pk \<Rightarrow> bytes \<Rightarrow> bytes \<Rightarrow> bool) \<Rightarrow> 'pk \<Rightarrow> string \<Rightarrow> string \<Rightarrow> int \<Rightarrow> error + bool" where
  \<comment> \<open>only \<open>InvalidSignature\<close> is caught: an error of \<open>b64decode\<close> is raised to the caller\<close>
  "verify_signature V public_key signature message counter =
     (let message_bytes = message @ str_int counter
      in case b64decode signature of
           Inl e \<Rightarrow> Inl e
         | Inr sg \<Rightarrow> Inr (V public_key sg message_bytes))"

text \<open>
  A primitive to run the definitions on: the signature is the key byte followed by the
  signed bytes, and it is accepted for exactly those bytes under that key.
\<close>

definition demo_sign :: "nat \<Rightarrow> bytes \<Rightarrow> bytes" where
  "demo_sign sk m = char_of sk # m"

definition demo_verify :: "nat \<Rightarrow> bytes \<Rightarrow> bytes \<Rightarrow> bool" where
  "demo_verify pk sg m = (sg = char_of pk # m)"

section \<open>The server and its neighbourhood\<close>

text \<open>
  The state of one \<open>Server\<close> together with the object it keeps in \<open>self.neighbourhood\<close>.
  That object is modelled by \<open>ServerAsClient\<close>, the class of the repository with the
  attributes \<open>clients_across_servers\<close> (the roster) and \<open>active_servers\<close> and the methods
  the server calls. \<open>counter\<close> and \<open>private_key\<close> are the attributes that
  \<open>send_server_hello\<close> reads from its server; \<open>Server.__init__\<close> sets neither, so each
  is \<open>None\<close> until something has set it, and reading it then raises
  \<open>AttributeError\<close>. \<open>sent\<close> is the transport: the frames
  handed to \<open>websocket.send\<close> that went through, oldest first, each as the value that
  \<open>json.dumps\<close> serialised. A handler is a coroutine; here one call of a handler runs
  to its end with no other handler in between.
\<close>

record 'sk server =
  url :: string
  counter :: "int option"
  private_key :: "'sk option"
  neighbour_servers :: "string list"
  neighbour_websockets :: "(link, json) dict"
  clients :: "(link, (string, json) dict) dict"
  clients_across_servers :: "(json, json) dict"
  active_servers :: "(link, json) dict"
  sent :: "(link \<times> json) list"

text \<open>
  What lies outside the program: the JSON codec, the state of the links, the dialler and
  the signing primitive. \<open>connected w\<close> says that \<open>w.send\<close> succeeds; otherwise it
  raises \<open>ConnectionClosed\<close>. \<open>connect u\<close> is \<open>websockets.connect\<close>, \<open>None\<close> when it
  raises. \<open>recv w\<close> is the next frame read from \<open>w\<close>, \<open>None\<close> when the link is closed.
  \<open>pss_sign\<close> is the signing primitive \<open>S\<close> of \<open>sign_message\<close>.
\<close>

record 'sk env =
  loads :: "string \<Rightarrow> json option"
  dumps :: "json \<Rightarrow> string"
  connected :: "link \<Rightarrow> bool"
  connect :: "json \<Rightarrow> link option"
  recv :: "link \<Rightarrow> string option"
  pss_sign :: "'sk \<Rightarrow> bytes \<Rightarrow> bytes"

text \<open>\<open>Server(url)\<close> with a fresh neighbourhood: every dictionary is empty.\<close>

definition Server :: "string \<Rightarrow> 'sk server" where
  "Server u =
     \<lparr>url = u, counter = None, private_key = None, neighbour_servers = [],
      neighbour_websockets = [], clients = [], clients_across_servers = [],
      active_servers = [], sent = []\<rparr>"

subsection \<open>ServerAsClient\<close>

definition find_active_server :: "'sk server \<Rightarrow> json \<Rightarrow> link option" where
  "find_active_server s server_url =
     (case find (\<lambda>(websocket, u). py_eq u server_url) (active_servers s) of
        None \<Rightarrow> None
      | Some (websocket, u) \<Rightarrow> Some websocket)"

definition remove_active_server :: "'sk server \<Rightarrow> json \<Rightarrow> 'sk server" where
  "remove_active_server s server_url =
     (case find_active_server s server_url of
        None \<Rightarrow> s
      | Some websocket \<Rightarrow> s\<lparr>active_servers := AList.delete websocket (active_servers s)\<rparr>)"

definition save_clients :: "'sk server \<Rightarrow> json \<Rightarrow> json \<Rightarrow> 'sk server \<times> error option" where
  \<comment> \<open>a list or a dict cannot be a dictionary key\<close>
  "save_clients s server_url client_list =
     (if hashable server_url
      then (s\<lparr>clients_across_servers :=
                py_update server_url client_list (clients_across_servers s)\<rparr>, None)
      else (s, Some TypeError))"

definition send_request ::
  "'sk env \<Rightarrow> 'sk server \<Rightarrow> link \<Rightarrow> json \<Rightarrow> bool \<Rightarrow> 'sk server \<times> (error + json)" where
  \<comment> \<open>a failed send is logged and nothing else; the response is \<open>None\<close> then\<close>
  "send_request env s receiver_websocket message wait_for_response =
     (if \<not> connected env receiver_websocket then (s, Inr JNull)
      else
        let s' = s\<lparr>sent := sent s @ [(receiver_websocket, message)]\<rparr> in
        if wait_for_response then
          (case recv env receiver_websocket of
             None \<Rightarrow> (s', Inr JNull)
           | Some response \<Rightarrow>
               (case loads env response of
                  None \<Rightarrow> (s', Inl JSONDecodeError)
                | Some r \<Rightarrow> (s', Inr r)))
        else (s', Inr JNull))"

fun broadcast_loop ::
  "'sk env \<Rightarrow> json \<Rightarrow> bool \<Rightarrow> link list \<Rightarrow> 'sk server \<Rightarrow> (link, json) dict
     \<Rightarrow> 'sk server \<times> (error + (link, json) dict)" where
  "broadcast_loop env message wait [] s responses = (s, Inr responses)"
| "broadcast_loop env message wait (websocket # rest) s responses =
     (case send_request env s websocket message wait of
        (s', Inl e) \<Rightarrow> (s', Inl e)
      | (s', Inr response) \<Rightarrow>
          broadcast_loop env message wait rest s' (AList.update websocket response responses))"

definition broadcast_request ::
  "'sk env \<Rightarrow> 'sk server \<Rightarrow> json \<Rightarrow> bool \<Rightarrow> 'sk server \<times> (error + (link, json) dict)" where
  "broadcast_request env s message wait_for_response =
     broadcast_loop env message wait_for_response (map fst (active_servers s)) s []"

definition send_server_hello ::
  "'sk env \<Rightarrow> 'sk server \<Rightarrow> link \<Rightarrow> 'sk server \<times> error option" where
  "send_server_hello env s websocket =
     (let data = JObj [(''type'', JStr ''server_hello''), (''sender'', JStr (url s))]
      in case counter s of
           None \<Rightarrow> (s, Some AttributeError)
         | Some c \<Rightarrow>
             let s1 = s\<lparr>counter := Some (c + 1)\<rparr>
             in (case private_key s1 of
                   None \<Rightarrow> (s1, Some AttributeError)
                 | Some sk \<Rightarrow>
                     let request = JObj
                           [(''type'', JStr ''signed_data''),
                            (''data'', JStr (dumps env data)),
                            (''counter'', JInt (c + 1)),
                            (''signature'',
                             JStr (sign_message (pss_sign env) (dumps env data) (c + 1) sk))]
                     in (fst (send_request env s1 websocket request False), None)))"

definition add_active_server ::
  "'sk env \<Rightarrow> 'sk server \<Rightarrow> json \<Rightarrow> link \<Rightarrow> 'sk server \<times> error option" where
  "add_active_server env s server_url websocket =
     send_server_hello env
       (s\<lparr>active_servers := AList.update websocket server_url (active_servers s)\<rparr>) websocket"

subsection \<open>Server\<close>

definition add_neighbour_servers :: "'sk server \<Rightarrow> string list \<Rightarrow> 'sk server" where
  "add_neighbour_servers s server_urls =
     s\<lparr>neighbour_servers :=
         fold (\<lambda>u acc. if u \<in> set acc then acc else acc @ [u]) server_urls (neighbour_servers s)\<rparr>"

definition connect_to_neighbour :: "'sk env \<Rightarrow> 'sk server \<Rightarrow> json \<Rightarrow> 'sk server" where
  \<comment> \<open>every exception of the dial and of the hello is caught and logged: what
      \<open>add_active_server\<close> did before it raised stays\<close>
  "connect_to_neighbour env s neighbour_url =
     (if \<exists>u \<in> set (map snd (active_servers s)). py_eq u neighbour_url then s
      else
        (case connect env neighbour_url of
           None \<Rightarrow> s
         | Some websocket \<Rightarrow> fst (add_active_server env s neighbour_url websocket)))"

definition connect_to_neighbourhood :: "'sk env \<Rightarrow> 'sk server \<Rightarrow> 'sk server" where
  "connect_to_neighbourhood env s =
     fold (\<lambda>u acc. connect_to_neighbour env acc (JStr u)) (neighbour_servers s) s"

definition send_response :: "'sk env \<Rightarrow> 'sk server \<Rightarrow> link \<Rightarrow> json \<Rightarrow> 'sk server" where
  \<comment> \<open>\<open>except Exception\<close> catches every failure of the send, so nothing is raised\<close>
  "send_response env s websocket message =
     (if connected env websocket then s\<lparr>sent := sent s @ [(websocket, message)]\<rparr>
      else if dict_in websocket (clients s)
        then s\<lparr>clients := AList.delete websocket (clients s)\<rparr>
      else
        (case map_of (neighbour_websockets s) websocket of
           Some neighbour_url \<Rightarrow> remove_active_server s neighbour_url
         | None \<Rightarrow> s))"

definition receive_server_hello ::
  "'sk env \<Rightarrow> 'sk server \<Rightarrow> link \<Rightarrow> json \<Rightarrow> 'sk server \<times> error option" where
  "receive_server_hello env s websocket data =
     (case py_item data ''sender'' of
        Inl e \<Rightarrow> (s, Some e)
      | Inr neighbour_url \<Rightarrow>
          (connect_to_neighbour env
             (s\<lparr>neighbour_websockets :=
                  AList.update websocket neighbour_url (neighbour_websockets s)\<rparr>)
             neighbour_url, None))"

definition receive_chat :: "'sk server \<Rightarrow> link \<Rightarrow> json \<Rightarrow> 'sk server \<times> error option" where
  "receive_chat s websocket message = (s, None)"

fun public_keys_of :: "(string, json) dict list \<Rightarrow> error + json list" where
  \<comment> \<open>\<open>[client["public_key"] for client in self.clients.values()]\<close>\<close>
  "public_keys_of [] = Inr []"
| "public_keys_of (client # rest) =
     (case dict_item client ''public_key'' of
        Inl e \<Rightarrow> Inl e
      | Inr k \<Rightarrow> (case public_keys_of rest of Inl e \<Rightarrow> Inl e | Inr ks \<Rightarrow> Inr (k # ks)))"

definition send_client_update ::
  "'sk env \<Rightarrow> 'sk server \<Rightarrow> link option \<Rightarrow> 'sk server \<times> error option" where
  "send_client_update env s websocket =
     (case public_keys_of (map snd (clients s)) of
        Inl e \<Rightarrow> (s, Some e)
      | Inr public_keys \<Rightarrow>
          let response = JObj [(''type'', JStr ''client_update''), (''clients'', JArr public_keys)]
          in (case websocket of
                None \<Rightarrow>
                  (case broadcast_request env s response False of
                     (s', Inl e) \<Rightarrow> (s', Some e)
                   | (s', Inr _) \<Rightarrow> (s', None))
              | Some w \<Rightarrow>
                  (case dict_item (neighbour_websockets s) w of
                     Inl e \<Rightarrow> (s, Some e)
                   | Inr neighbour_url \<Rightarrow> (send_response env s w response, None))))"

definition receive_hello ::
  "'sk env \<Rightarrow> 'sk server \<Rightarrow> link \<Rightarrow> json \<Rightarrow> 'sk server \<times> error option" where
  "receive_hello env s websocket message =
     (case py_item message ''public_key'' of
        Inl e \<Rightarrow> (s, Some e)
      | Inr client_public_key \<Rightarrow>
          send_client_update env
            (s\<lparr>clients := AList.update websocket [(''public_key'', client_public_key)] (clients s)\<rparr>)
            None)"

text \<open>
  The delivery loop of \<open>receive_public_chat\<close>, \<open>for client in self.clients\<close>. The
  iterator of a dict raises \<open>RuntimeError\<close> when it is advanced after the dict has
  changed size, and a failed \<open>send_response\<close> pops the client: \<open>n\<close> is the size the dict
  had when the loop started, compared at every step, also at the one that would end the
  loop.
\<close>

fun receive_public_chat_loop ::
  "'sk env \<Rightarrow> link \<Rightarrow> json \<Rightarrow> nat \<Rightarrow> link list \<Rightarrow> 'sk server \<Rightarrow> 'sk server \<times> error option" where
  "receive_public_chat_loop env websocket request n [] s =
     (if length (clients s) \<noteq> n then (s, Some RuntimeError) else (s, None))"
| "receive_public_chat_loop env websocket request n (client # rest) s =
     (if length (clients s) \<noteq> n then (s, Some RuntimeError)
      else if client = websocket then receive_public_chat_loop env websocket request n rest s
      else receive_public_chat_loop env websocket request n rest
             (send_response env s client request))"

definition truthy :: "(string, json) dict option \<Rightarrow> bool" where
  \<comment> \<open>\<open>if sender:\<close> for \<open>None\<close> or a dict\<close>
  "truthy sender = (case sender of None \<Rightarrow> False | Some d \<Rightarrow> d \<noteq> [])"

definition receive_public_chat ::
  "'sk env \<Rightarrow> 'sk server \<Rightarrow> link \<Rightarrow> json \<Rightarrow> 'sk server \<times> error option" where
  "receive_public_chat env s websocket request =
     (case py_item request ''data'' of
        Inl e \<Rightarrow> (s, Some e)
      | Inr data \<Rightarrow>
     (case py_get data ''sender'' of
        Inl e \<Rightarrow> (s, Some e)
      | Inr fingerprint \<Rightarrow>
     (case py_get data ''message'' of
        Inl e \<Rightarrow> (s, Some e)
      | Inr message \<Rightarrow>
          if fingerprint = JNull \<or> message = JNull then (s, None)
          else
            let sender = map_of (clients s) websocket in
            if \<not> dict_in websocket (neighbour_websockets s) \<and> sender = None then (s, None)
            else
              let sender' =
                    (if dict_in websocket (neighbour_websockets s) then sender
                     else map_option (AList.update ''fingerprint'' fingerprint) sender);
                  s1 =
                    (if dict_in websocket (neighbour_websockets s) then s
                     else (case sender' of
                             None \<Rightarrow> s
                           | Some d \<Rightarrow> s\<lparr>clients := AList.update websocket d (clients s)\<rparr>))
              in (case receive_public_chat_loop env websocket request
                         (length (clients s1)) (map fst (clients s1)) s1 of
                    (s2, Some e) \<Rightarrow> (s2, Some e)
                  | (s2, None) \<Rightarrow>
                      if truthy sender' then
                        (case broadcast_request env s2 request False of
                           (s3, Inl e) \<Rightarrow> (s3, Some e)
                         | (s3, Inr _) \<Rightarrow> (s3, None))
                      else (s2, None)))))"

definition client_list_response :: "'sk server \<Rightarrow> json" where
  "client_list_response s =
     JObj [(''type'', JStr ''client_list''),
           (''servers'',
            JArr (map (\<lambda>(server_address, cl).
                         JObj [(''address'', server_address), (''clients'', cl)])
                      (clients_across_servers s)))]"

definition send_client_list :: "'sk env \<Rightarrow> 'sk server \<Rightarrow> link \<Rightarrow> 'sk server" where
  "send_client_list env s websocket = send_response env s websocket (client_list_response s)"

definition receive_client_update ::
  "'sk server \<Rightarrow> link \<Rightarrow> json \<Rightarrow> 'sk server \<times> error option" where
  "receive_client_update s websocket message =
     (case py_item message ''clients'' of
        Inl e \<Rightarrow> (s, Some e)
      | Inr cl \<Rightarrow>
          (case (if isinstance_ServerConnection websocket
                 then dict_item (neighbour_websockets s) websocket
                 else dict_item (active_servers s) websocket) of
             Inl e \<Rightarrow> (s, Some e)
           | Inr neighbour_url \<Rightarrow> save_clients s neighbour_url cl))"

definition handle_message ::
  "'sk env \<Rightarrow> 'sk server \<Rightarrow> link \<Rightarrow> string \<Rightarrow> 'sk server \<times> error option" where
  \<comment> \<open>in the \<open>signed_data\<close> branch \<open>counter\<close> and \<open>signature\<close> are read and not used\<close>
  "handle_message env s websocket raw =
     (case loads env raw of
        None \<Rightarrow> (s, Some JSONDecodeError)
      | Some (JObj message) \<Rightarrow>
          let message_type = dict_get message ''type'' in
          if message_type = JStr ''client_list_request''
            then (send_client_list env s websocket, None)
          else if message_type = JStr ''client_update_request''
            then send_client_update env s (Some websocket)
          else if message_type = JStr ''client_update''
            then receive_client_update s websocket (JObj message)
          else if message_type = JStr ''signed_data'' then
            (let counter = dict_get message ''counter'';
                 signature = dict_get message ''signature'';
                 data = dict_get message ''data''
             in if data = JNull then (s, None)
                else
                  let data' = (case data of
                                 JStr t \<Rightarrow> (case loads env t of None \<Rightarrow> data | Some d \<Rightarrow> d)
                               | _ \<Rightarrow> data)
                  in (case py_get data' ''type'' of
                        Inl e \<Rightarrow> (s, Some e)
                      | Inr message_type \<Rightarrow>
                          if message_type = JStr ''chat''
                            then receive_chat s websocket (JObj message)
                          else if message_type = JStr ''hello''
                            then receive_hello env s websocket data'
                          else if message_type = JStr ''public_chat''
                            then receive_public_chat env s websocket (JObj message)
                          else if message_type = JStr ''server_hello''
                            then receive_server_hello env s websocket data'
                          else (s, None)))
          else (s, None)
      | Some _ \<Rightarrow> (s, Some AttributeError))"

section \<open>Chat messages (message.py)\<close>

text \<open>
  The attributes of a \<open>Message\<close> that hold \<open>None\<close>, \<open>bytes\<close> or a \<open>str\<close> at different
  times keep their Python type: \<open>encode\<close> exists on a \<open>str\<close> only.
\<close>

datatype pyval = PNone | PBytes bytes | PStr string

record message =
  content :: string
  encrypted_content :: pyval
  participants :: "string list"
  iv :: pyval
  symm_keys :: "string list"
  message_counter :: int
  message_type :: string

definition Message :: "string \<Rightarrow> message" where
  \<comment> \<open>\<open>Message(content)\<close>\<close>
  "Message c =
     \<lparr>content = c, encrypted_content = PNone, participants = [], iv = PNone, symm_keys = [],
      message_counter = 0, message_type = ''chat''\<rparr>"

text \<open>
  The library's ciphers are parameters. \<open>E pk k\<close> is \<open>pk.encrypt(k, OAEP(\<dots>))\<close>.
  \<open>G k iv p\<close> is the pair of the bytes that \<open>encryptor.update(p) + encryptor.finalize()\<close>
  returns under AES-GCM and the tag that the encryptor then holds in \<open>encryptor.tag\<close>.
  \<open>new_cipher key v\<close> is what building \<open>Cipher(algorithms.AES(key), modes.GCM(v))\<close> and
  its encryptor or decryptor raises, \<open>None\<close> when it succeeds: \<open>algorithms.AES\<close> accepts
  keys of 16, 24, 32 or 64 bytes and raises \<open>ValueError\<close> otherwise, \<open>modes.GCM\<close> raises
  \<open>TypeError\<close> on a vector that is not bytes and \<open>ValueError\<close> on one outside 8 to 128
  bytes, and a 64-byte key, which only XTS takes, is refused for GCM with \<open>TypeError\<close>.
\<close>

definition aes_key_ok :: "bytes \<Rightarrow> bool" where
  "aes_key_ok k = (length k = 16 \<or> length k = 24 \<or> length k = 32 \<or> length k = 64)"

definition gcm_iv_ok :: "bytes \<Rightarrow> bool" where
  "gcm_iv_ok v = (8 \<le> length v \<and> length v \<le> 128)"

definition new_cipher :: "bytes \<Rightarrow> pyval \<Rightarrow> error option" where
  "new_cipher key v =
     (if \<not> aes_key_ok key then Some ValueError
      else
        (case v of
           PBytes b \<Rightarrow>
             if \<not> gcm_iv_ok b then Some ValueError
             else if length key = 64 then Some TypeError
             else None
         | _ \<Rightarrow> Some TypeError))"

definition encrypt_key :: "('pk \<Rightarrow> bytes \<Rightarrow> bytes) \<Rightarrow> 'pk \<Rightarrow> bytes \<Rightarrow> string" where
  "encrypt_key E receiver_public_key aes_key = b64encode (E receiver_public_key aes_key)"

definition decrypt_key :: "message \<Rightarrow> bytes \<Rightarrow> error + bytes" where
  \<comment> \<open>\<open>self.private_key\<close>: a \<open>Message\<close> has no such attribute\<close>
  "decrypt_key m aesKey = Inl AttributeError"

definition encrypt_chat_message ::
  "(json \<Rightarrow> string) \<Rightarrow> (bytes \<Rightarrow> bytes \<Rightarrow> bytes \<Rightarrow> bytes \<times> bytes) \<Rightarrow> ('pk \<Rightarrow> bytes \<Rightarrow> bytes)
     \<Rightarrow> bytes \<Rightarrow> bytes \<Rightarrow> message \<Rightarrow> 'pk list \<Rightarrow> error + message" where
  \<comment> \<open>\<open>urandom16\<close> and \<open>urandom32\<close> are the results of the two calls of \<open>os.urandom\<close>;
      the tag of the encryptor is never read\<close>
  "encrypt_chat_message json_dumps G E urandom16 urandom32 m receiver_public_keys =
     (let m1 = m\<lparr>iv := PBytes urandom16\<rparr>;
          aes_key = urandom32;
          chat_data = JObj [(''participants'', JArr (map JStr (participants m1))),
                            (''message'', JStr (content m1))];
          chat_data_json = json_dumps chat_data
      in case new_cipher aes_key (iv m1) of
           Some e \<Rightarrow> Inl e
         | None \<Rightarrow>
             let m2 = m1\<lparr>encrypted_content :=
                           PBytes (fst (G aes_key urandom16 chat_data_json))\<rparr>
             in Inr (m2\<lparr>symm_keys :=
                          symm_keys m2
                            @ map (\<lambda>pk. encrypt_key E pk aes_key) receiver_public_keys\<rparr>))"

definition decrypt_chat_message :: "message \<Rightarrow> bytes \<Rightarrow> error + string" where
  \<comment> \<open>the decryptor is built without a tag, so \<open>finalize\<close> raises \<open>ValueError\<close> once
      \<open>update\<close> has run; \<open>update\<close> is reached only when \<open>encrypted_content\<close> is a \<open>str\<close>\<close>
  "decrypt_chat_message m key =
     (case new_cipher key (iv m) of
        Some e \<Rightarrow> Inl e
      | None \<Rightarrow>
          (case encrypted_content m of
             PStr t \<Rightarrow> Inl ValueError
           | _ \<Rightarrow> Inl AttributeError))"

section \<open>The client (client.py)\<close>

record ('sk, 'pk) client =
  client_counter :: int
  server_url :: string
  client_private_key :: 'sk
  client_public_key :: 'pk
  fingerprint :: string
  signature :: "string option"

definition client_sign_message ::
  "('sk \<Rightarrow> bytes \<Rightarrow> bytes) \<Rightarrow> ('sk, 'pk) client \<Rightarrow> bytes \<Rightarrow> ('sk, 'pk) client \<times> string" where
  \<comment> \<open>\<open>Client.sign_message\<close>: signs the bytes it is given and keeps the result\<close>
  "client_sign_message S c message =
     (let sg = b64encode (S (client_private_key c) message)
      in (c\<lparr>signature := Some sg\<rparr>, sg))"

text \<open>
  \<open>Client.send_message\<close>. \<open>pem\<close> is \<open>export_public_key\<close>. The result is the frame handed
  to \<open>websocket.send\<close> (as the value \<open>json.dumps\<close> serialises), \<open>None\<close> when the method
  returns without sending. \<open>prepare_chat_message\<close> has no parameter \<open>chat_type\<close>, so
  the two calls that pass one raise \<open>TypeError\<close>.
\<close>

definition send_message ::
  "('pk \<Rightarrow> string) \<Rightarrow> (json \<Rightarrow> string) \<Rightarrow> ('sk \<Rightarrow> bytes \<Rightarrow> bytes) \<Rightarrow> ('sk, 'pk) client
     \<Rightarrow> string \<Rightarrow> string \<Rightarrow> ('sk, 'pk) client \<times> (error + json option)" where
  "send_message pem json_dumps S c message_content chat_type =
     (let message_data =
            (if chat_type = ''hello'' then
               Inr (Some (JObj [(''type'', JStr ''hello''),
                                (''public_key'', JStr (pem (client_public_key c)))]))
             else if chat_type = ''chat'' then Inl TypeError
             else if chat_type = ''group_chat'' then Inl TypeError
             else if chat_type = ''public_chat'' then
               Inr (Some (JObj [(''type'', JStr ''public_chat''),
                                (''sender'', JStr (fingerprint c)),
                                (''message'', JStr message_content)]))
             else Inr None)
      in case message_data of
           Inl e \<Rightarrow> (c, Inl e)
         | Inr None \<Rightarrow> (c, Inr None)
         | Inr (Some d) \<Rightarrow>
             let chat_message_bytes = json_dumps d;
                 (c', sg) = client_sign_message S c chat_message_bytes;
                 signed_message = JObj [(''type'', JStr ''signed_data''),
                                        (''data'', d),
                                        (''counter'', JInt (client_counter c)),
                                        (''signature'', JStr sg)]
             in (c', Inr (Some signed_message)))"

section \<open>Example values\<close>

text \<open>
  Concrete surroundings on which the definitions are run. \<open>dumps_plain\<close> prints a value
  the way \<open>json.dumps\<close> does when its strings are printable ASCII, where only the
  quote and the backslash are escaped; \<open>demo_env frames up\<close>
  decodes exactly the frames listed in \<open>frames\<close>, sends succeed on the links for which
  \<open>up\<close> holds, and no neighbour can be dialled.
\<close>

fun join :: "string \<Rightarrow> string list \<Rightarrow> string" where
  "join sep [] = []"
| "join sep [x] = x"
| "join sep (x # y # r) = x @ sep @ join sep (y # r)"

fun escape :: "string \<Rightarrow> string" where
  "escape [] = []"
| "escape (c # cs) =
     (if c = CHR 0x22 \<or> c = CHR 0x5C then CHR 0x5C # c # escape cs else c # escape cs)"

fun dumps_plain :: "json \<Rightarrow> string" where
  "dumps_plain JNull = ''null''"
| "dumps_plain (JBool b) = (if b then ''true'' else ''false'')"
| "dumps_plain (JInt i) = str_int i"
| "dumps_plain (JStr t) = CHR 0x22 # escape t @ [CHR 0x22]"
| "dumps_plain (JArr xs) = ''['' @ join '', '' (map dumps_plain xs) @ '']''"
| "dumps_plain (JObj kvs) =
     ''{'' @ join '', ''
              (map (\<lambda>(k, v). CHR 0x22 # escape k @ [CHR 0x22] @ '': '' @ dumps_plain v) kvs)
          @ ''}''"

definition demo_env :: "(string \<times> json) list \<Rightarrow> (link \<Rightarrow> bool) \<Rightarrow> nat env" where
  "demo_env frames up =
     \<lparr>loads = map_of frames, dumps = dumps_plain, connected = up,
      connect = (\<lambda>u. None), recv = (\<lambda>w. None), pss_sign = demo_sign\<rparr>"

text \<open>
  A server on \<open>localhost:8080\<close> peered with \<open>localhost:8081\<close>: link 1 is the inbound
  connection of the peer, link 2 the outbound one, and the roster holds one client of
  the peer.
\<close>

definition peered :: "nat server" where
  "peered =
     (Server ''localhost:8080'')
       \<lparr>neighbour_websockets := [(ServerConnection 1, JStr ''localhost:8081'')],
        active_servers := [(ClientConnection 2, JStr ''localhost:8081'')],
        clients_across_servers := [(JStr ''localhost:8081'', JArr [JStr ''PEM-D''])]\<rparr>"


definition client_update_E :: json where
  "client_update_E = JObj [(''type'', JStr ''client_update''), (''clients'', JArr [JStr ''PEM-E''])]"

definition public_chat_envelope :: json where
  "public_chat_envelope =
     JObj [(''type'', JStr ''signed_data''),
           (''data'', JObj [(''type'', JStr ''public_chat''), (''sender'', JStr ''fp-C''),
                            (''message'', JStr ''hello'')]),
           (''counter'', JInt 5),
           (''signature'', JStr ''c2ln'')]"


text \<open>The peered server with two registered clients, on links 3 and 4.\<close>

definition crowded :: "nat server" where
  "crowded =
     peered\<lparr>clients := [(ServerConnection 3, [(''public_key'', JStr ''PEM-C'')]),
                        (ServerConnection 4, [(''public_key'', JStr ''PEM-F'')])]\<rparr>"

text \<open>
  Frames as they arrive on the wire, with the value that \<open>json.loads\<close> gives for each.
  The signature of the \<open>hello\<close> is the base64 text of the bytes \<open>forged\<close>.
\<close>

definition hello_frame :: string where
  \<open>hello_frame = ''{"type": "signed_data", "data": {"type": "hello", "public_key": "PEM-C"}, "counter": 0, "signature": "Zm9yZ2Vk"}''\<close>

definition hello_envelope :: json where
  "hello_envelope =
     JObj [(''type'', JStr ''signed_data''),
           (''data'', JObj [(''type'', JStr ''hello''), (''public_key'', JStr ''PEM-C'')]),
           (''counter'', JInt 0),
           (''signature'', JStr ''Zm9yZ2Vk'')]"

definition client_list_request_frame :: string where
  \<open>client_list_request_frame = ''{"type": "client_list_request"}''\<close>

definition public_chat_frame :: string where
  \<open>public_chat_frame = ''{"type": "signed_data", "data": {"type": "public_chat", "sender": "fp-C", "message": "hello"}, "counter": 5, "signature": "c2ln"}''\<close>

text \<open>
  The same \<open>public_chat\<close> with its \<open>data\<close> serialised into a string, the way
  \<open>send_server_hello\<close> fills the field, and the frame that carries it.
\<close>

definition public_chat_text :: string where
  \<open>public_chat_text = ''{"type": "public_chat", "sender": "fp-C", "message": "hello"}''\<close>

definition string_data_envelope :: json where
  "string_data_envelope =
     JObj [(''type'', JStr ''signed_data''),
           (''data'', JStr public_chat_text),
           (''counter'', JInt 5),
           (''signature'', JStr ''c2ln'')]"

definition string_data_frame :: string where
  "string_data_frame = dumps_plain string_data_envelope"

definition string_data_env :: "nat env" where
  "string_data_env =
     demo_env [(string_data_frame, string_data_envelope),
               (public_chat_text,
                JObj [(''type'', JStr ''public_chat''), (''sender'', JStr ''fp-C''),
                      (''message'', JStr ''hello'')])]
              (\<lambda>w. True)"

text \<open>The text that \<open>send_server_hello\<close> signs on \<open>localhost:8080\<close>, without the counter.\<close>

definition server_hello_text :: string where
  "server_hello_text =
     dumps_plain (JObj [(''type'', JStr ''server_hello''), (''sender'', JStr ''localhost:8080'')])"

text \<open>Ciphers to run \<open>Message\<close> on: they only have the shape of the library's.\<close>

definition demo_gcm :: "bytes \<Rightarrow> bytes \<Rightarrow> bytes \<Rightarrow> bytes \<times> bytes" where
  "demo_gcm k v p = (rev p, take 16 (k @ v))"

definition demo_oaep :: "nat \<Rightarrow> bytes \<Rightarrow> bytes" where
  "demo_oaep pk k = char_of pk # k"

section \<open>Equality of decoded values\<close>

text \<open>
  A string is equal to itself only, so on string keys \<open>py_update\<close> is the update of an
  association list; a key that can be hashed is equal to itself.
\<close>

lemma py_eq_JStr [simp]: "py_eq x (JStr t) = (x = JStr t)"
  by (cases x) simp_all

lemma py_eq_JStr_left [simp]: "py_eq (JStr t) y = (y = JStr t)"
  by (cases y) auto

lemma py_eq_refl_hashable: "hashable k \<Longrightarrow> py_eq k k"
  by (cases k) simp_all

lemma py_update_JStr: "py_update (JStr P) v d = AList.update (JStr P) v d"
  by (induction d) auto

lemma py_update_idem: "hashable k \<Longrightarrow> py_update k v (py_update k v d) = py_update k v d"
  by (induction d) (simp_all add: py_eq_refl_hashable)

section \<open>Base64 and decimal text\<close>

text \<open>
  Decoding inverts encoding, also when characters outside the alphabet follow the
  encoded text: the scan skips them, or has stopped at the padding before it reaches
  them.
\<close>

lemma b64_index_char: "n < 64 \<Longrightarrow> b64_index (b64_char n) = Some n"
  by (auto simp add: b64_index_def b64_char_def Let_def)

lemma b64_index_pad: "b64_index (CHR ''='') = None"
  by (simp add: b64_index_def)

lemma b64_char_not_pad: "n < 64 \<Longrightarrow> b64_char n \<noteq> CHR ''=''"
proof
  assume n: "n < 64" and e: "b64_char n = CHR ''=''"
  from e have "b64_index (b64_char n) = b64_index (CHR ''='')" by simp
  with n show False by (simp add: b64_index_char b64_index_pad)
qed

lemma b64_char_ascii: "n < 64 \<Longrightarrow> (of_char (b64_char n) :: nat) < 128"
  by (auto simp add: b64_char_def)

lemma hi6: "(x::nat) < 256 \<Longrightarrow> x div 4 < 64" by simp

lemma mid6a: "(y::nat) < 256 \<Longrightarrow> x mod 4 * 16 + y div 16 < 64"
proof -
  assume "y < 256"
  then have "y div 16 < 16" by simp
  moreover have "x mod 4 < 4" by simp
  ultimately show ?thesis by linarith
qed

lemma mid6b: "(z::nat) < 256 \<Longrightarrow> y mod 16 * 4 + z div 64 < 64"
proof -
  assume "z < 256"
  then have "z div 64 < 4" by simp
  moreover have "y mod 16 < 16" by simp
  ultimately show ?thesis by linarith
qed

lemma mid6a_div: "(y::nat) < 256 \<Longrightarrow> (x mod 4 * 16 + y div 16) div 16 = x mod 4"
proof -
  assume "y < 256"
  then have "y div 16 < 16" by simp
  then show ?thesis by simp
qed

lemma mid6a_mod: "(y::nat) < 256 \<Longrightarrow> (x mod 4 * 16 + y div 16) mod 16 = y div 16"
proof -
  assume "y < 256"
  then have "y div 16 < 16" by simp
  then show ?thesis by simp
qed

lemma mid6b_div: "(z::nat) < 256 \<Longrightarrow> (y mod 16 * 4 + z div 64) div 4 = y mod 16"
proof -
  assume "z < 256"
  then have "z div 64 < 4" by simp
  then show ?thesis by simp
qed

lemma mid6b_mod: "(z::nat) < 256 \<Longrightarrow> (y mod 16 * 4 + z div 64) mod 4 = z div 64"
proof -
  assume "z < 256"
  then have "z div 64 < 4" by simp
  then show ?thesis by simp
qed

lemma lo6a: "(x::nat) mod 4 * 16 < 64"
proof -
  have "x mod 4 < 4" by simp
  then show ?thesis by linarith
qed

lemma lo6b: "(x::nat) mod 16 * 4 < 64"
proof -
  have "x mod 16 < 16" by simp
  then show ?thesis by linarith
qed

lemma hi4: "(y::nat) < 256 \<Longrightarrow> y div 16 < 16" by simp

lemma hi2: "(z::nat) < 256 \<Longrightarrow> z div 64 < 4" by simp

lemma a2b_junk:
  "\<forall>c \<in> set junk. b64_index c = None \<Longrightarrow> a2b_base64 junk 0 l p out = Inr out"
  by (induction junk arbitrary: p) auto

lemma a2b_step:
  "v < 64 \<Longrightarrow> a2b_base64 (b64_char v # cs) q l p out =
     (if q = 0 then a2b_base64 cs 1 v 0 out
      else if q = 1 then a2b_base64 cs 2 (v mod 16) 0 (out @ [char_of (l * 4 + v div 16)])
      else if q = 2 then a2b_base64 cs 3 (v mod 4) 0 (out @ [char_of (l * 16 + v div 4)])
      else a2b_base64 cs 0 0 0 (out @ [char_of (l * 64 + v)]))"
  by (simp add: b64_index_char b64_char_not_pad)

lemma a2b_pad:
  "a2b_base64 (CHR ''='' # cs) q l p out =
     (if q \<ge> 2 \<and> q + (p + 1) \<ge> 4 then Inr out
      else a2b_base64 cs q l (if q \<ge> 2 then p + 1 else p) out)"
  by simp

lemma a2b_encode:
  "\<forall>c \<in> set junk. b64_index c = None \<Longrightarrow>
   a2b_base64 (b64encode bs @ junk) 0 0 0 out = Inr (out @ bs)"
proof (induction bs arbitrary: out rule: b64encode.induct)
  case 1
  then show ?case by (simp add: a2b_junk)
next
  case (2 a)
  have x: "(of_char a :: nat) < 256" by simp
  show ?case
    using x by (simp add: Let_def a2b_step a2b_pad hi6 lo6a del: a2b_base64.simps(2))
next
  case (3 a b)
  have x: "(of_char a :: nat) < 256" and y: "(of_char b :: nat) < 256" by simp_all
  have y16: "(of_char b :: nat) div 16 < 16" by (rule hi4 [OF y])
  show ?case
    using x y y16
    by (simp add: Let_def a2b_step a2b_pad hi6 mid6a lo6b mid6a_div mid6a_mod
          del: a2b_base64.simps(2))
next
  case (4 a b c rest)
  have x: "(of_char a :: nat) < 256" and y: "(of_char b :: nat) < 256"
    and z: "(of_char c :: nat) < 256" by simp_all
  have y16: "(of_char b :: nat) div 16 < 16" by (rule hi4 [OF y])
  have z64: "(of_char c :: nat) div 64 < 4" by (rule hi2 [OF z])
  show ?case
    using x y z y16 z64 "4.IH" [OF refl refl refl "4.prems"]
    by (simp add: Let_def a2b_step hi6 mid6a mid6b mid6a_div mid6a_mod mid6b_div mid6b_mod
          del: a2b_base64.simps(2))
qed

lemma b64encode_ascii: "c \<in> set (b64encode bs) \<Longrightarrow> (of_char c :: nat) < 128"
proof (induction bs rule: b64encode.induct)
  case 1
  then show ?case by simp
next
  case (2 a)
  have x: "(of_char a :: nat) < 256" by simp
  from 2 show ?case
    using b64_char_ascii [OF hi6 [OF x]] b64_char_ascii [OF lo6a, of "of_char a"]
    by (auto simp add: Let_def)
next
  case (3 a b)
  have x: "(of_char a :: nat) < 256" and y: "(of_char b :: nat) < 256" by simp_all
  from 3 show ?case
    using b64_char_ascii [OF hi6 [OF x]] b64_char_ascii [OF mid6a [OF y], of "of_char a"]
      b64_char_ascii [OF lo6b, of "of_char b"]
    by (auto simp add: Let_def)
next
  case (4 a b c rest)
  have x: "(of_char a :: nat) < 256" and y: "(of_char b :: nat) < 256"
    and z: "(of_char c :: nat) < 256" by simp_all
  have z4: "(of_char c :: nat) mod 64 < 64" by simp
  from 4 show ?case
    using b64_char_ascii [OF hi6 [OF x]] b64_char_ascii [OF mid6a [OF y], of "of_char a"]
      b64_char_ascii [OF mid6b [OF z], of "of_char b"] b64_char_ascii [OF z4]
    by (auto simp add: Let_def)
qed

lemma b64decode_b64encode_junk:
  assumes "\<forall>c \<in> set junk. b64_index c = None \<and> (of_char c :: nat) < 128"
  shows "b64decode (b64encode bs @ junk) = Inr bs"
proof -
  have "\<not> (\<exists>c \<in> set (b64encode bs @ junk). (of_char c :: nat) \<ge> 128)"
    using assms b64encode_ascii [of _ bs] by (auto simp add: not_le)
  moreover have "a2b_base64 (b64encode bs @ junk) 0 0 0 [] = Inr bs"
    using a2b_encode [of junk bs "[]"] assms by simp
  ultimately show ?thesis
    by (simp add: b64decode_def del: set_append)
qed

lemma b64decode_b64encode: "b64decode (b64encode bs) = Inr bs"
  using b64decode_b64encode_junk [of "[]" bs] by simp

text \<open>\<open>str\<close> of an integer is never empty and determines the integer.\<close>

lemma of_char_digit: "d < 10 \<Longrightarrow> (of_char (digit_char d) :: nat) = 48 + d"
  by (simp add: digit_char_def)

lemma digits_value_digits: "digits_value (digits n) = n"
proof (induction n rule: digits.induct)
  case (1 n)
  show ?case
  proof (cases "n < 10")
    case True
    then show ?thesis
      by (subst digits.simps) (simp add: digits_value_def of_char_digit)
  next
    case False
    have m: "n mod 10 < 10" by simp
    have "digits_value (digits n) = 10 * digits_value (digits (n div 10)) + n mod 10"
      using False by (subst digits.simps) (simp add: digits_value_def of_char_digit [OF m])
    with 1 False show ?thesis by simp
  qed
qed

lemma digits_inj: "digits n = digits m \<Longrightarrow> n = m"
  by (metis digits_value_digits)

lemma digits_hd: "digits n \<noteq> [] \<and> hd (digits n) \<noteq> CHR ''-''"
proof (induction n rule: digits.induct)
  case (1 n)
  show ?case
  proof (cases "n < 10")
    case True
    then have "(of_char (digit_char n) :: nat) \<noteq> of_char (CHR ''-'')"
      by (simp add: of_char_digit)
    then have "digit_char n \<noteq> CHR ''-''" by auto
    with True show ?thesis by (subst digits.simps, subst digits.simps) simp
  next
    case False
    with 1 show ?thesis by (subst digits.simps, subst digits.simps) simp
  qed
qed

lemma str_int_nonempty: "str_int i \<noteq> []"
  using digits_hd by (simp add: str_int_def)

lemma str_int_inj: "str_int i = str_int j \<Longrightarrow> i = j"
proof -
  assume e: "str_int i = str_int j"
  have neg: "False" if "a < 0" "\<not> b < 0" "str_int a = str_int b" for a b
  proof -
    from that have "CHR ''-'' # digits (nat (- a)) = digits (nat b)" by (simp add: str_int_def)
    then have "hd (digits (nat b)) = CHR ''-''" by (metis list.sel(1))
    with digits_hd show False by blast
  qed
  show ?thesis
  proof (cases "i < 0")
    case True
    show ?thesis
    proof (cases "j < 0")
      case jn: True
      with True e have "digits (nat (- i)) = digits (nat (- j))" by (simp add: str_int_def)
      then have "nat (- i) = nat (- j)" by (rule digits_inj)
      with True jn show ?thesis by simp
    next
      case False
      with True e neg show ?thesis by blast
    qed
  next
    case False
    show ?thesis
    proof (cases "j < 0")
      case True
      with False e neg [of j i] show ?thesis by simp
    next
      case jp: False
      with False e have "digits (nat i) = digits (nat j)" by (simp add: str_int_def)
      then have "nat i = nat j" by (rule digits_inj)
      with False jp show ?thesis by simp
    qed
  qed
qed

section \<open>What a send to a neighbour leaves unchanged\<close>

lemma send_request_fields:
  "clients (fst (send_request env s w m b)) = clients s"
  "clients_across_servers (fst (send_request env s w m b)) = clients_across_servers s"
  "active_servers (fst (send_request env s w m b)) = active_servers s"
  "neighbour_websockets (fst (send_request env s w m b)) = neighbour_websockets s"
  by (simp_all add: send_request_def Let_def split: option.splits)

lemma broadcast_loop_fields:
  "clients (fst (broadcast_loop env m b ws s r)) = clients s \<and>
   clients_across_servers (fst (broadcast_loop env m b ws s r)) = clients_across_servers s \<and>
   active_servers (fst (broadcast_loop env m b ws s r)) = active_servers s \<and>
   neighbour_websockets (fst (broadcast_loop env m b ws s r)) = neighbour_websockets s"
proof (induction ws arbitrary: s r)
  case Nil
  then show ?case by simp
next
  case (Cons w ws)
  obtain s' x where sr: "send_request env s w m b = (s', x)"
    by (cases "send_request env s w m b")
  have f: "clients s' = clients s" "clients_across_servers s' = clients_across_servers s"
    "active_servers s' = active_servers s" "neighbour_websockets s' = neighbour_websockets s"
    using send_request_fields [of env s w m b] sr by simp_all
  show ?case
  proof (cases x)
    case (Inl e)
    then show ?thesis using sr f by simp
  next
    case (Inr resp)
    then show ?thesis using sr f Cons.IH [of s' "AList.update w resp r"] by simp
  qed
qed

lemma broadcast_request_fields:
  "clients (fst (broadcast_request env s m b)) = clients s"
  "clients_across_servers (fst (broadcast_request env s m b)) = clients_across_servers s"
  "active_servers (fst (broadcast_request env s m b)) = active_servers s"
  "neighbour_websockets (fst (broadcast_request env s m b)) = neighbour_websockets s"
  using broadcast_loop_fields [of env m b "map fst (active_servers s)" s "[]"]
  by (simp_all add: broadcast_request_def)



lemma send_client_update_broadcast_fields:
  "clients (fst (send_client_update env s None)) = clients s"
  "clients_across_servers (fst (send_client_update env s None)) = clients_across_servers s"
proof -
  have "clients (fst (send_client_update env s None)) = clients s
      \<and> clients_across_servers (fst (send_client_update env s None)) = clients_across_servers s"
  proof (cases "public_keys_of (map snd (clients s))")
    case (Inl e)
    then show ?thesis by (simp add: send_client_update_def)
  next
    case (Inr ks)
    let ?m = "JObj [(''type'', JStr ''client_update''), (''clients'', JArr ks)]"
    obtain s' x where b: "broadcast_request env s ?m False = (s', x)"
      by (cases "broadcast_request env s ?m False")
    have "clients s' = clients s" "clients_across_servers s' = clients_across_servers s"
      using broadcast_request_fields(1,2) [of env s ?m False] b by simp_all
    then show ?thesis
      using Inr b by (cases x) (simp_all add: send_client_update_def)
  qed
  then show "clients (fst (send_client_update env s None)) = clients s"
    and "clients_across_servers (fst (send_client_update env s None)) = clients_across_servers s"
    by simp_all
qed

lemma receive_hello_registers:
  "py_item data ''public_key'' = Inr k \<Longrightarrow>
   map_of (clients (fst (receive_hello env s w data))) w = Some [(''public_key'', k)]"
  by (simp add: receive_hello_def send_client_update_broadcast_fields update_conv')

lemma receive_hello_keeps_roster:
  "clients_across_servers (fst (receive_hello env s w data)) = clients_across_servers s"
  by (cases "py_item data ''public_key''")
     (simp_all add: receive_hello_def send_client_update_broadcast_fields)

section \<open>Signed envelopes on the server\<close>

text \<open>The example frames are the serialisations of the values they decode to.\<close>

lemma frames_are_serialisations:
  "dumps_plain hello_envelope = hello_frame"
  "dumps_plain public_chat_envelope = public_chat_frame"
  "dumps_plain (JObj [(''type'', JStr ''client_list_request'')]) = client_list_request_frame"
  by code_simp+

text \<open>
  C1, on the code. A \<open>signed_data\<close> envelope with an inner \<open>hello\<close> is handed to
  \<open>receive_hello\<close> whatever its \<open>signature\<close> and \<open>counter\<close> fields hold: neither is
  looked at, no key is resolved and nothing is verified. The link is registered as a
  client with the key the envelope advertises.
\<close>

theorem unverified_hello_is_accepted:
  assumes "loads env raw =
     Some (JObj [(''type'', JStr ''signed_data''),
                 (''data'', JObj [(''type'', JStr ''hello''), (''public_key'', k)]),
                 (''counter'', c),
                 (''signature'', sg)])"
  shows "handle_message env s w raw =
           receive_hello env s w (JObj [(''type'', JStr ''hello''), (''public_key'', k)])
       \<and> map_of (clients (fst (handle_message env s w raw))) w = Some [(''public_key'', k)]"
proof -
  have d: "py_item (JObj [(''type'', JStr ''hello''), (''public_key'', k)]) ''public_key'' = Inr k"
    by (simp add: py_item_def dict_item_def)
  have h: "handle_message env s w raw =
           receive_hello env s w (JObj [(''type'', JStr ''hello''), (''public_key'', k)])"
    using assms by (simp add: handle_message_def dict_get_def py_get_def Let_def)
  show ?thesis
    using h receive_hello_registers [OF d, of env s w] by simp
qed

text \<open>
  The witness: a fresh server receives a \<open>hello\<close> whose signature is the text
  \<open>Zm9yZ2Vk\<close>; under the demo primitive it verifies for no data and no key, and the
  sender is registered all the same.
\<close>

theorem unverified_hello_is_accepted_witness:
  "loads (demo_env [(hello_frame, hello_envelope)] (\<lambda>w. True)) hello_frame =
     Some (JObj [(''type'', JStr ''signed_data''),
                 (''data'', JObj [(''type'', JStr ''hello''), (''public_key'', JStr ''PEM-C'')]),
                 (''counter'', JInt 0),
                 (''signature'', JStr ''Zm9yZ2Vk'')])
   \<and> verify_signature demo_verify 7 ''Zm9yZ2Vk''
        (dumps_plain (JObj [(''type'', JStr ''hello''), (''public_key'', JStr ''PEM-C'')])) 0
       = Inr False
   \<and> map_of (clients (fst (handle_message (demo_env [(hello_frame, hello_envelope)] (\<lambda>w. True))
                               (Server ''localhost:8080'') (ServerConnection 3) hello_frame)))
        (ServerConnection 3) = Some [(''public_key'', JStr ''PEM-C'')]"
proof -
  have h: "loads (demo_env [(hello_frame, hello_envelope)] (\<lambda>w. True)) hello_frame =
     Some (JObj [(''type'', JStr ''signed_data''),
                 (''data'', JObj [(''type'', JStr ''hello''), (''public_key'', JStr ''PEM-C'')]),
                 (''counter'', JInt 0),
                 (''signature'', JStr ''Zm9yZ2Vk'')])"
    by (simp add: demo_env_def hello_envelope_def)
  have v: "verify_signature demo_verify 7 ''Zm9yZ2Vk''
        (dumps_plain (JObj [(''type'', JStr ''hello''), (''public_key'', JStr ''PEM-C'')])) 0
       = Inr False"
    by code_simp
  from unverified_hello_is_accepted [OF h]
  have "map_of (clients (fst (handle_message (demo_env [(hello_frame, hello_envelope)] (\<lambda>w. True))
                               (Server ''localhost:8080'') (ServerConnection 3) hello_frame)))
        (ServerConnection 3) = Some [(''public_key'', JStr ''PEM-C'')]"
    by blast
  with h v show ?thesis by blast
qed

text \<open>
  C2, on the code. No counter is kept for a sender, so an envelope that repeats a counter
  is handled like the first one. Client 3 of the crowded server sends the same
  \<open>public_chat\<close> envelope with counter 5 twice: both calls return, and client 4 and the
  neighbour receive the envelope twice.
\<close>

theorem replayed_counter_is_processed_again:
  "(let env = demo_env [(public_chat_frame, public_chat_envelope)] (\<lambda>w. True);
        r1 = handle_message env crowded (ServerConnection 3) public_chat_frame;
        r2 = handle_message env (fst r1) (ServerConnection 3) public_chat_frame
    in snd r1 = None \<and> snd r2 = None
     \<and> sent (fst r1) = [(ServerConnection 4, public_chat_envelope),
                         (ClientConnection 2, public_chat_envelope)]
     \<and> sent (fst r2) = [(ServerConnection 4, public_chat_envelope),
                         (ClientConnection 2, public_chat_envelope),
                         (ServerConnection 4, public_chat_envelope),
                         (ClientConnection 2, public_chat_envelope)])"
  by code_simp

section \<open>Signing and verifying\<close>

text \<open>
  C3, as the claim states it: any change of the signature makes \<open>verify_signature\<close>
  return false. The signature with a line feed appended is a different string and is
  accepted, and the string \<open>A\<close> makes the call raise \<open>binascii.Error\<close> instead of
  returning.
\<close>

theorem changed_signature_is_accepted_or_raises:
  "sign_message demo_sign server_hello_text 1 7 @ [CHR 0x0A]
     \<noteq> sign_message demo_sign server_hello_text 1 7
   \<and> verify_signature demo_verify 7 (sign_message demo_sign server_hello_text 1 7)
        server_hello_text 1 = Inr True
   \<and> verify_signature demo_verify 7 (sign_message demo_sign server_hello_text 1 7 @ [CHR 0x0A])
        server_hello_text 1 = Inr True
   \<and> verify_signature demo_verify 7 ''A'' server_hello_text 1 = Inl BinasciiError"
  by code_simp

text \<open>
  The round trip alone needs only a primitive that accepts the signatures it makes.
\<close>

lemma sign_then_verify:
  assumes "\<And>m. V pk (S sk m) m"
  shows "verify_signature V pk (sign_message S d n sk) d n = Inr True"
  using assms
  by (simp add: verify_signature_def sign_message_def Let_def b64decode_b64encode)

text \<open>
  C3, amended. Let the primitive accept every signature it makes (\<open>correct\<close>) and accept
  a signature only for the bytes it was made on (\<open>binding\<close>). Then the signature of
  \<open>sign_message\<close> verifies, and it is rejected when the data alone or the counter alone
  is changed. A signature text is judged by the bytes it decodes to: the call returns
  the verdict of the primitive on those bytes, raises what \<open>b64decode\<close> raises, and
  still accepts the signature followed by ASCII characters outside the base64 alphabet.
\<close>

theorem sign_verify_round_trip:
  assumes correct: "\<And>m. V pk (S sk m) m"
    and binding: "\<And>m m'. V pk (S sk m) m' \<Longrightarrow> m' = m"
  shows "verify_signature V pk (sign_message S d n sk) d n = Inr True
       \<and> (\<forall>d'. d' \<noteq> d \<longrightarrow> verify_signature V pk (sign_message S d n sk) d' n = Inr False)
       \<and> (\<forall>n'. n' \<noteq> n \<longrightarrow> verify_signature V pk (sign_message S d n sk) d n' = Inr False)
       \<and> (\<forall>sg b. b64decode sg = Inr b \<longrightarrow>
             verify_signature V pk sg d n = Inr (V pk b (d @ str_int n)))
       \<and> (\<forall>sg e. b64decode sg = Inl e \<longrightarrow> verify_signature V pk sg d n = Inl e)
       \<and> (\<forall>junk. (\<forall>c \<in> set junk. b64_index c = None \<and> (of_char c :: nat) < 128) \<longrightarrow>
             verify_signature V pk (sign_message S d n sk @ junk) d n = Inr True)"
proof -
  have v: "verify_signature V pk (sign_message S d n sk @ junk) d' n'
             = Inr (V pk (S sk (d @ str_int n)) (d' @ str_int n'))"
    if "\<forall>c \<in> set junk. b64_index c = None \<and> (of_char c :: nat) < 128" for junk d' n'
    using that
    by (simp add: verify_signature_def sign_message_def Let_def b64decode_b64encode_junk)
  have v0: "verify_signature V pk (sign_message S d n sk) d' n'
             = Inr (V pk (S sk (d @ str_int n)) (d' @ str_int n'))" for d' n'
    using v [of "[]" d' n'] by simp
  have d: "\<not> V pk (S sk (d @ str_int n)) (d' @ str_int n)" if "d' \<noteq> d" for d'
    using binding [of "d @ str_int n" "d' @ str_int n"] that by auto
  have n: "\<not> V pk (S sk (d @ str_int n)) (d @ str_int n')" if "n' \<noteq> n" for n'
    using binding [of "d @ str_int n" "d @ str_int n'"] that str_int_inj [of n' n] by auto
  show ?thesis
    using correct d n v v0
    by (auto simp add: verify_signature_def Let_def)
qed

theorem sign_verify_round_trip_witness:
  "verify_signature demo_verify 7 (sign_message demo_sign server_hello_text 1 7)
        server_hello_text 1 = Inr True
   \<and> verify_signature demo_verify 7 (sign_message demo_sign server_hello_text 1 7)
        ''{}'' 1 = Inr False
   \<and> verify_signature demo_verify 7 (sign_message demo_sign server_hello_text 1 7)
        server_hello_text 2 = Inr False
   \<and> verify_signature demo_verify 7 (sign_message demo_sign server_hello_text 1 7 @ [CHR 0x0A])
        server_hello_text 1 = Inr True"
proof -
  have c: "\<And>m. demo_verify 7 (demo_sign 7 m) m"
    by (simp add: demo_verify_def demo_sign_def)
  have b: "\<And>m m'. demo_verify 7 (demo_sign 7 m) m' \<Longrightarrow> m' = m"
    by (simp add: demo_verify_def demo_sign_def)
  have d: "''{}'' \<noteq> server_hello_text" by code_simp
  have j: "\<forall>c \<in> set [CHR 0x0A]. b64_index c = None \<and> (of_char c :: nat) < 128"
    by (simp add: b64_index_def)
  have n: "(2::int) \<noteq> 1" by simp
  note t = sign_verify_round_trip [of demo_verify 7 demo_sign 7 server_hello_text 1, OF c b]
  from t have 1: "verify_signature demo_verify 7 (sign_message demo_sign server_hello_text 1 7)
        server_hello_text 1 = Inr True" by blast
  from t d have 2: "verify_signature demo_verify 7 (sign_message demo_sign server_hello_text 1 7)
        ''{}'' 1 = Inr False" by blast
  from t n have 3: "verify_signature demo_verify 7 (sign_message demo_sign server_hello_text 1 7)
        server_hello_text 2 = Inr False" by blast
  from t j have 4: "verify_signature demo_verify 7
        (sign_message demo_sign server_hello_text 1 7 @ [CHR 0x0A]) server_hello_text 1 = Inr True"
    by blast
  from 1 2 3 4 show ?thesis by blast
qed

text \<open>
  C4, on the code. The client signs \<open>json.dumps(message_data)\<close> alone: the envelope of
  a \<open>public_chat\<close> and of a \<open>hello\<close> carries the base64 text of the signature over
  those bytes, which are never the bytes followed by the decimal counter.
\<close>

theorem client_signature_omits_counter:
  "(let d = JObj [(''type'', JStr ''public_chat''), (''sender'', JStr (fingerprint c)),
                  (''message'', JStr text)];
        sg = b64encode (S (client_private_key c) (jd d))
    in send_message pem jd S c text ''public_chat'' =
         (c\<lparr>signature := Some sg\<rparr>,
          Inr (Some (JObj [(''type'', JStr ''signed_data''), (''data'', d),
                           (''counter'', JInt (client_counter c)), (''signature'', JStr sg)])))
     \<and> jd d \<noteq> jd d @ str_int (client_counter c))
   \<and> (let d = JObj [(''type'', JStr ''hello''), (''public_key'', JStr (pem (client_public_key c)))];
          sg = b64encode (S (client_private_key c) (jd d))
      in send_message pem jd S c text ''hello'' =
           (c\<lparr>signature := Some sg\<rparr>,
            Inr (Some (JObj [(''type'', JStr ''signed_data''), (''data'', d),
                             (''counter'', JInt (client_counter c)), (''signature'', JStr sg)])))
       \<and> jd d \<noteq> jd d @ str_int (client_counter c))"
  by (simp add: send_message_def client_sign_message_def Let_def str_int_nonempty)

text \<open>
  The server-as-client does what the claim says when its server has a counter and a
  key: the signature in its \<open>server_hello\<close> is made over the serialised data followed
  by the decimal text of the new counter.
\<close>

lemma send_server_hello_signs_data_and_counter:
  assumes "connected env w" and "counter s = Some c" and "private_key s = Some sk"
  shows "sent (fst (send_server_hello env s w)) = sent s @
     [(w, JObj [(''type'', JStr ''signed_data''),
                (''data'', JStr (dumps env (JObj [(''type'', JStr ''server_hello''),
                                                  (''sender'', JStr (url s))]))),
                (''counter'', JInt (c + 1)),
                (''signature'',
                 JStr (b64encode (pss_sign env sk
                        (dumps env (JObj [(''type'', JStr ''server_hello''),
                                          (''sender'', JStr (url s))])
                         @ str_int (c + 1)))))])]"
  using assms
  by (simp add: send_server_hello_def send_request_def sign_message_def Let_def)

text \<open>
  On a server built by \<open>Server(url)\<close> the attributes are missing: the call raises
  before anything is signed or sent.
\<close>

lemma send_server_hello_without_counter:
  "counter s = None \<Longrightarrow> send_server_hello env s w = (s, Some AttributeError)"
  by (simp add: send_server_hello_def)

section \<open>Hybrid encryption\<close>

text \<open>\<open>decrypt_chat_message\<close> raises on every message and every key.\<close>

lemma decrypt_chat_message_raises: "\<exists>e. decrypt_chat_message m k = Inl e"
  by (simp add: decrypt_chat_message_def split: pyval.splits option.splits)

text \<open>
  C5, on the code. \<open>encrypt_chat_message\<close> stores the bytes of the encryptor without
  its tag, as \<open>bytes\<close>. Opening what it stored with the very key and vector raises
  \<open>AttributeError\<close>, and so does \<open>decrypt_key\<close> on any wrapped key.
\<close>

theorem stored_ciphertext_cannot_be_opened:
  assumes "length urandom16 = 16" and "length urandom32 = 32"
  shows "(let m' = (Message p)
                \<lparr>iv := PBytes urandom16,
                 encrypted_content :=
                   PBytes (fst (G urandom32 urandom16
                                  (jd (JObj [(''participants'', JArr []), (''message'', JStr p)])))),
                 symm_keys := map (\<lambda>pk. b64encode (E pk urandom32)) pks\<rparr>
          in encrypt_chat_message jd G E urandom16 urandom32 (Message p) pks = Inr m'
           \<and> decrypt_chat_message m' urandom32 = Inl AttributeError
           \<and> decrypt_key m' wrapped = Inl AttributeError)"
  using assms
  by (simp add: encrypt_chat_message_def decrypt_chat_message_def decrypt_key_def Message_def
      encrypt_key_def new_cipher_def aes_key_ok_def gcm_iv_ok_def Let_def)

theorem stored_ciphertext_cannot_be_opened_witness:
  "decrypt_chat_message
     ((Message ''hi'')
        \<lparr>iv := PBytes (replicate 16 (CHR ''i'')),
         encrypted_content :=
           PBytes (fst (demo_gcm (replicate 32 (CHR ''k'')) (replicate 16 (CHR ''i''))
                          (dumps_plain (JObj [(''participants'', JArr []), (''message'', JStr ''hi'')])))),
         symm_keys := map (\<lambda>pk. b64encode (demo_oaep pk (replicate 32 (CHR ''k'')))) [7]\<rparr>)
     (replicate 32 (CHR ''k'')) = Inl AttributeError"
proof -
  have h1: "length (replicate 16 (CHR ''i'')) = 16" by simp
  have h2: "length (replicate 32 (CHR ''k'')) = 32" by simp
  from stored_ciphertext_cannot_be_opened
    [OF h1 h2, where p = "''hi''" and G = demo_gcm and jd = dumps_plain and E = demo_oaep
       and pks = "[7]"]
  show ?thesis by (simp add: Let_def)
qed

section \<open>Roster updates\<close>

text \<open>
  C6. A \<open>client_update\<close> that arrives on a link recorded for the peer URL \<open>P\<close> and
  carries the list \<open>cl\<close> returns normally and changes the state in one place only: the
  roster entry of \<open>P\<close> becomes \<open>cl\<close>. The entry of every other key is what it was, and
  handling the same update once more returns the same state.
\<close>

theorem receive_client_update_replaces_entry:
  assumes cl: "py_item message ''clients'' = Inr cl"
    and peer: "(if isinstance_ServerConnection w then dict_item (neighbour_websockets s) w
                else dict_item (active_servers s) w) = Inr (JStr P)"
  shows "receive_client_update s w message =
           (s\<lparr>clients_across_servers := AList.update (JStr P) cl (clients_across_servers s)\<rparr>, None)
       \<and> map_of (clients_across_servers (fst (receive_client_update s w message))) (JStr P) = Some cl
       \<and> (\<forall>Q. Q \<noteq> JStr P \<longrightarrow>
             map_of (clients_across_servers (fst (receive_client_update s w message))) Q
               = map_of (clients_across_servers s) Q)
       \<and> receive_client_update (fst (receive_client_update s w message)) w message
           = receive_client_update s w message"
proof -
  let ?s' = "s\<lparr>clients_across_servers := AList.update (JStr P) cl (clients_across_servers s)\<rparr>"
  have r: "receive_client_update s w message = (?s', None)"
    using cl peer by (simp add: receive_client_update_def save_clients_def py_update_JStr)
  have peer': "(if isinstance_ServerConnection w then dict_item (neighbour_websockets ?s') w
                else dict_item (active_servers ?s') w) = Inr (JStr P)"
    using peer by (cases "isinstance_ServerConnection w") simp_all
  have r2: "receive_client_update ?s' w message = (?s', None)"
    using cl peer' by (simp add: receive_client_update_def save_clients_def py_update_JStr)
  show ?thesis
    using r r2 by (simp add: update_conv')
qed

theorem receive_client_update_replaces_entry_witness:
  "py_item client_update_E ''clients'' = Inr (JArr [JStr ''PEM-E''])
   \<and> (if isinstance_ServerConnection (ServerConnection 1)
       then dict_item (neighbour_websockets peered) (ServerConnection 1)
       else dict_item (active_servers peered) (ServerConnection 1)) = Inr (JStr ''localhost:8081'')
   \<and> receive_client_update peered (ServerConnection 1) client_update_E =
       (peered\<lparr>clients_across_servers := [(JStr ''localhost:8081'', JArr [JStr ''PEM-E''])]\<rparr>, None)"
proof -
  have h1: "py_item client_update_E ''clients'' = Inr (JArr [JStr ''PEM-E''])"
    by (simp add: client_update_E_def py_item_def dict_item_def)
  have h2: "(if isinstance_ServerConnection (ServerConnection 1)
       then dict_item (neighbour_websockets peered) (ServerConnection 1)
       else dict_item (active_servers peered) (ServerConnection 1)) = Inr (JStr ''localhost:8081'')"
    by (simp add: peered_def dict_item_def)
  have r: "clients_across_servers peered = [(JStr ''localhost:8081'', JArr [JStr ''PEM-D''])]"
    by (simp add: peered_def)
  from receive_client_update_replaces_entry [OF h1 h2]
  have "receive_client_update peered (ServerConnection 1) client_update_E =
       (peered\<lparr>clients_across_servers := [(JStr ''localhost:8081'', JArr [JStr ''PEM-E''])]\<rparr>, None)"
    by (simp add: r)
  with h1 h2 show ?thesis by blast
qed

text \<open>
  Handling an update twice is the same as handling it once in every case, also when the
  link is not recorded or the message has no list: the call then raises and the state
  is untouched.
\<close>

lemma receive_client_update_idem:
  "fst (receive_client_update (fst (receive_client_update s w message)) w message)
     = fst (receive_client_update s w message)"
  by (auto simp add: receive_client_update_def save_clients_def py_update_idem
           split: sum.splits if_splits)

section \<open>The client list\<close>

text \<open>The reply lists every pair of the roster, in the order of the roster.\<close>

lemma send_client_list_lists_roster:
  "connected env w \<Longrightarrow>
   send_client_list env s w =
     s\<lparr>sent := sent s @
         [(w, JObj [(''type'', JStr ''client_list''),
                    (''servers'',
                     JArr (map (\<lambda>(a, cl). JObj [(''address'', a), (''clients'', cl)])
                               (clients_across_servers s)))])]\<rparr>"
  by (simp add: send_client_list_def send_response_def client_list_response_def)

text \<open>
  The roster is written by \<open>save_clients\<close> alone, which only a \<open>client_update\<close>
  reaches: every other frame leaves it as it is.
\<close>

lemma send_response_roster:
  "clients_across_servers (send_response env s w m) = clients_across_servers s"
  by (simp add: send_response_def remove_active_server_def split: option.splits)

lemma receive_public_chat_loop_roster:
  "clients_across_servers (fst (receive_public_chat_loop env w req n ks s)) = clients_across_servers s"
  by (induction ks arbitrary: s) (simp_all add: send_response_roster)

lemma send_client_update_roster:
  "clients_across_servers (fst (send_client_update env s x)) = clients_across_servers s"
proof (cases x)
  case None
  then show ?thesis by (simp add: send_client_update_broadcast_fields)
next
  case (Some w)
  then show ?thesis
    by (simp add: send_client_update_def send_response_roster Let_def split: sum.splits)
qed

lemma receive_public_chat_roster:
  "clients_across_servers (fst (receive_public_chat env s w request)) = clients_across_servers s"
proof -
  have l: "clients_across_servers s2 = clients_across_servers s1"
    if "receive_public_chat_loop env w request n ks s1 = (s2, x)" for s1 s2 n ks x
    using receive_public_chat_loop_roster [of env w request n ks s1] that by simp
  have b: "clients_across_servers s3 = clients_across_servers s2"
    if "broadcast_request env s2 request False = (s3, y)" for s2 s3 y
    using broadcast_request_fields(2) [of env s2 request False] that by simp
  show ?thesis
    by (auto simp add: receive_public_chat_def Let_def
             split: sum.splits prod.splits option.splits if_splits dest!: l b)
qed

lemma connect_to_neighbour_roster:
  "clients_across_servers (connect_to_neighbour env s u) = clients_across_servers s"
  by (simp add: connect_to_neighbour_def add_active_server_def send_server_hello_def Let_def
        send_request_fields split: option.splits)

lemma receive_server_hello_roster:
  "clients_across_servers (fst (receive_server_hello env s w data)) = clients_across_servers s"
  by (simp add: receive_server_hello_def connect_to_neighbour_roster split: sum.splits)

lemma roster_written_by_client_update_only:
  assumes "loads env raw = Some (JObj message)"
    and "dict_get message ''type'' \<noteq> JStr ''client_update''"
  shows "clients_across_servers (fst (handle_message env s w raw)) = clients_across_servers s"
  using assms
  by (simp add: handle_message_def Let_def send_client_list_def send_response_roster
        send_client_update_roster receive_chat_def receive_hello_keeps_roster
        receive_public_chat_roster receive_server_hello_roster split: sum.splits)

text \<open>
  C8, on the code. A fresh server on \<open>localhost:8080\<close> receives the \<open>hello\<close> of a
  client and then its \<open>client_list_request\<close>. The client is registered, and the reply
  has no entry at all: nothing writes the clients of the server into its roster.
\<close>

theorem client_list_omits_local_clients:
  "(let env = demo_env [(hello_frame, hello_envelope),
                        (client_list_request_frame, JObj [(''type'', JStr ''client_list_request'')])]
                       (\<lambda>w. True);
        s1 = fst (handle_message env (Server ''localhost:8080'') (ServerConnection 3) hello_frame);
        s2 = fst (handle_message env s1 (ServerConnection 3) client_list_request_frame)
    in clients s2 = [(ServerConnection 3, [(''public_key'', JStr ''PEM-C'')])]
     \<and> sent s2 = [(ServerConnection 3,
                    JObj [(''type'', JStr ''client_list''), (''servers'', JArr [])])])"
  by code_simp

section \<open>Failed sends\<close>


text \<open>
  The keys of a dict are distinct, and the two operations that write \<open>active_servers\<close>
  keep them so.
\<close>

lemma active_servers_keys_distinct:
  "distinct (map fst (active_servers s)) \<Longrightarrow>
   distinct (map fst (active_servers (fst (add_active_server env s u w))))
   \<and> distinct (map fst (active_servers (remove_active_server s u)))"
  by (simp add: add_active_server_def send_server_hello_def remove_active_server_def Let_def
        send_request_fields distinct_update distinct_delete split: option.splits)




section \<open>Public chat\<close>

text \<open>
  A \<open>public_chat\<close> from a recorded neighbour link that is not a client as well is never
  broadcast: the call is the delivery loop and nothing more. When the sends to the
  clients succeed, every client receives the envelope once. (A link that has sent both
  a \<open>server_hello\<close> and a \<open>hello\<close> counts as a client, and its messages are broadcast.)
\<close>

lemma receive_public_chat_loop_connected:
  assumes "\<forall>c \<in> set ks. c \<noteq> w \<longrightarrow> connected env c" and "length (clients s) = n"
  shows "receive_public_chat_loop env w req n ks s =
           (s\<lparr>sent := sent s @ map (\<lambda>c. (c, req)) (filter (\<lambda>c. c \<noteq> w) ks)\<rparr>, None)"
  using assms
proof (induction ks arbitrary: s)
  case Nil
  then show ?case by simp
next
  case (Cons c ks)
  show ?case
  proof (cases "c = w")
    case True
    with Cons show ?thesis by simp
  next
    case False
    with Cons.prems have up: "connected env c" by simp
    let ?s' = "s\<lparr>sent := sent s @ [(c, req)]\<rparr>"
    have sr: "send_response env s c req = ?s'"
      using up by (simp add: send_response_def)
    have "receive_public_chat_loop env w req n ks ?s' =
            (?s'\<lparr>sent := sent ?s' @ map (\<lambda>c. (c, req)) (filter (\<lambda>c. c \<noteq> w) ks)\<rparr>, None)"
      using Cons.prems by (intro Cons.IH) simp_all
    with False Cons.prems sr show ?thesis by simp
  qed
qed

lemma peer_public_chat_is_not_broadcast:
  assumes "dict_in w (neighbour_websockets s)" and "\<not> dict_in w (clients s)"
    and "py_item request ''data'' = Inr (JObj d)"
    and "dict_get d ''sender'' \<noteq> JNull" and "dict_get d ''message'' \<noteq> JNull"
  shows "receive_public_chat env s w request =
           receive_public_chat_loop env w request (length (clients s)) (map fst (clients s)) s"
proof -
  have none: "map_of (clients s) w = None"
    using assms(2) by (simp add: dict_in_def)
  obtain s2 x where l: "receive_public_chat_loop env w request (length (clients s))
                          (map fst (clients s)) s = (s2, x)"
    by (cases "receive_public_chat_loop env w request (length (clients s)) (map fst (clients s)) s")
  show ?thesis
    using assms none l
    by (cases x) (simp_all add: receive_public_chat_def py_get_def Let_def truthy_def)
qed

lemma peer_public_chat_reaches_every_client:
  assumes "dict_in w (neighbour_websockets s)" and "\<not> dict_in w (clients s)"
    and "py_item request ''data'' = Inr (JObj d)"
    and "dict_get d ''sender'' \<noteq> JNull" and "dict_get d ''message'' \<noteq> JNull"
    and up: "\<forall>c \<in> set (map fst (clients s)). connected env c"
  shows "receive_public_chat env s w request =
           (s\<lparr>sent := sent s @ map (\<lambda>c. (c, request)) (map fst (clients s))\<rparr>, None)"
proof -
  have "w \<notin> set (map fst (clients s))"
    using assms(2) by (simp add: dict_in_def map_of_eq_None_iff)
  then have f: "filter (\<lambda>c. c \<noteq> w) (map fst (clients s)) = map fst (clients s)"
    by (simp add: filter_id_conv) blast
  have "receive_public_chat_loop env w request (length (clients s)) (map fst (clients s)) s =
          (s\<lparr>sent := sent s @ map (\<lambda>c. (c, request))
                                (filter (\<lambda>c. c \<noteq> w) (map fst (clients s)))\<rparr>, None)"
    using up by (intro receive_public_chat_loop_connected) simp_all
  with f peer_public_chat_is_not_broadcast [OF assms(1-5), of env] show ?thesis by simp
qed

text \<open>
  C7, on the code. The send to client 3 fails, \<open>send_response\<close> pops the client from
  the dict that the loop iterates, and the next step of the loop raises \<open>RuntimeError\<close>:
  client 4, whose link is up, receives nothing.
\<close>

theorem public_chat_delivery_stops_at_closed_client:
  "receive_public_chat (demo_env [] (\<lambda>w. w \<noteq> ServerConnection 3)) crowded (ServerConnection 1)
      public_chat_envelope
   = (crowded\<lparr>clients := [(ServerConnection 4, [(''public_key'', JStr ''PEM-F'')])]\<rparr>,
      Some RuntimeError)
   \<and> sent (fst (receive_public_chat (demo_env [] (\<lambda>w. w \<noteq> ServerConnection 3)) crowded
                   (ServerConnection 1) public_chat_envelope)) = []"
  by code_simp

text \<open>
  C10, as the claim states it: on a link that is neither a registered client nor a
  recorded neighbour link \<open>receive_public_chat\<close> returns. \<open>handle_message\<close> decodes a
  \<open>data\<close> field that is a string for its own dispatch and hands the envelope on as it
  came: link 5 is unknown to the crowded server, and the call raises \<open>AttributeError\<close>
  on the string.
\<close>

theorem public_chat_with_string_data_raises:
  "\<not> dict_in (ServerConnection 5) (clients crowded)
   \<and> \<not> dict_in (ServerConnection 5) (neighbour_websockets crowded)
   \<and> receive_public_chat string_data_env crowded (ServerConnection 5) string_data_envelope
       = (crowded, Some AttributeError)
   \<and> handle_message string_data_env crowded (ServerConnection 5) string_data_frame
       = (crowded, Some AttributeError)"
  by code_simp

text \<open>
  C10, amended. On a link that is neither a registered client nor a recorded neighbour
  link, \<open>receive_public_chat\<close> leaves the whole state as it was: no client is added or
  removed, the neighbour map and the roster keep their values and no frame is sent to a
  client or to a peer. When the \<open>data\<close> of the envelope is an object the call returns.
\<close>

theorem public_chat_unknown_link_dropped:
  assumes "\<not> dict_in w (clients s)" and "\<not> dict_in w (neighbour_websockets s)"
  shows "fst (receive_public_chat env s w request) = s
       \<and> (\<forall>d. py_item request ''data'' = Inr (JObj d) \<longrightarrow>
              receive_public_chat env s w request = (s, None))"
  using assms
  by (auto simp add: receive_public_chat_def dict_in_def py_get_def Let_def
           split: sum.splits json.splits)

text \<open>
  The witness runs on the crowded server with every link up: clients 3 and 4 and the
  neighbour would receive the envelope if it were not dropped.
\<close>

theorem public_chat_unknown_link_dropped_witness:
  "receive_public_chat (demo_env [] (\<lambda>w. True)) crowded (ServerConnection 5)
        public_chat_envelope = (crowded, None)
   \<and> sent (fst (receive_public_chat (demo_env [] (\<lambda>w. True)) crowded (ServerConnection 5)
                   public_chat_envelope)) = []"
proof -
  have h1: "\<not> dict_in (ServerConnection 5) (clients crowded)"
    by (simp add: crowded_def dict_in_def)
  have h2: "\<not> dict_in (ServerConnection 5) (neighbour_websockets crowded)"
    by (simp add: crowded_def peered_def dict_in_def)
  have h3: "py_item public_chat_envelope ''data'' =
       Inr (JObj [(''type'', JStr ''public_chat''), (''sender'', JStr ''fp-C''),
                  (''message'', JStr ''hello'')])"
    by (simp add: public_chat_envelope_def py_item_def dict_item_def)
  have e: "sent crowded = []"
    by (simp add: crowded_def peered_def Server_def)
  from public_chat_unknown_link_dropped [OF h1 h2] h3
  have r: "receive_public_chat (demo_env [] (\<lambda>w. True)) crowded (ServerConnection 5)
        public_chat_envelope = (crowded, None)"
    by blast
  with e show ?thesis by simp
qed

end
